theory Spec2Isabelle
  imports Main "HOL-Library.Word"
begin

unbundle bit_operations_syntax

section \<open>Data model of \<open>serial_linux.go\<close>\<close>

subsection \<open>Machine types\<close>

text \<open>
  Go's \<open>uint32\<close> is a 32-bit word, so that \<open>|\<close> is bitwise. A Go string is indexed by
  byte, and \<^typ>\<open>char\<close> is a byte. \<open>int\<close> and \<open>uintptr\<close> values are only ever compared,
  looked up and passed on by this file, never computed with, so they are \<^typ>\<open>int\<close> and
  \<^typ>\<open>nat\<close>.
\<close>

type_synonym uint32 = "32 word"
type_synonym uint8 = "8 word"
type_synonym uintptr = nat

subsection \<open>The constants of \<open>golang.org/x/sys/unix\<close>\<close>

text \<open>
  The source refers to the kernel's constants by name only (\<open>unix.B9600\<close>, \<open>unix.CS8\<close>,
  \<open>unix.TCSETS\<close>, ...). Their values belong to the imported package and differ between
  architectures, so they are a parameter of the model: every function below takes the
  table \<open>U\<close> of constants. \<open>NCCS\<close> is the length of the array \<open>Termios.Cc\<close>.
\<close>

record unix_consts =
  B50 :: uint32
  B75 :: uint32
  B110 :: uint32
  B134 :: uint32
  B150 :: uint32
  B200 :: uint32
  B300 :: uint32
  B600 :: uint32
  B1200 :: uint32
  B1800 :: uint32
  B2400 :: uint32
  B4800 :: uint32
  B9600 :: uint32
  B19200 :: uint32
  B38400 :: uint32
  B57600 :: uint32
  B115200 :: uint32
  B230400 :: uint32
  B460800 :: uint32
  B500000 :: uint32
  B576000 :: uint32
  B921600 :: uint32
  B1000000 :: uint32
  B1152000 :: uint32
  B1500000 :: uint32
  B2000000 :: uint32
  B2500000 :: uint32
  B3000000 :: uint32
  B3500000 :: uint32
  B4000000 :: uint32
  CS5 :: uint32
  CS6 :: uint32
  CS7 :: uint32
  CS8 :: uint32
  CSTOPB :: uint32
  PARENB :: uint32
  PARODD :: uint32
  IGNPAR :: uint32
  CREAD :: uint32
  CLOCAL :: uint32
  NCCS :: nat
  VMIN :: nat
  VTIME :: nat
  TCSETS :: uintptr
  TCFLSH :: uintptr
  TCIOFLUSH :: uintptr
  TCSBRKP :: uintptr
  SYS_IOCTL :: uintptr
  EBADFD :: uintptr
  O_RDWR :: int
  O_NOCTTY :: int
  O_NONBLOCK :: int

text \<open>The values of the package on linux/amd64, used to run the model on concrete inputs.\<close>

definition linux_amd64 :: unix_consts where
  "linux_amd64 = \<lparr>
     B50 = 0x1, B75 = 0x2, B110 = 0x3, B134 = 0x4, B150 = 0x5, B200 = 0x6, B300 = 0x7,
     B600 = 0x8, B1200 = 0x9, B1800 = 0xa, B2400 = 0xb, B4800 = 0xc, B9600 = 0xd,
     B19200 = 0xe, B38400 = 0xf, B57600 = 0x1001, B115200 = 0x1002, B230400 = 0x1003,
     B460800 = 0x1004, B500000 = 0x1005, B576000 = 0x1006, B921600 = 0x1007,
     B1000000 = 0x1008, B1152000 = 0x1009, B1500000 = 0x100a, B2000000 = 0x100b,
     B2500000 = 0x100c, B3000000 = 0x100d, B3500000 = 0x100e, B4000000 = 0x100f,
     CS5 = 0x0, CS6 = 0x10, CS7 = 0x20, CS8 = 0x30, CSTOPB = 0x40,
     PARENB = 0x100, PARODD = 0x200, IGNPAR = 0x4, CREAD = 0x80, CLOCAL = 0x800,
     NCCS = 19, VMIN = 6, VTIME = 5,
     TCSETS = 0x5402, TCFLSH = 0x540b, TCIOFLUSH = 2, TCSBRKP = 0x5425,
     SYS_IOCTL = 16, EBADFD = 77,
     O_RDWR = 0x2, O_NOCTTY = 0x100, O_NONBLOCK = 0x800 \<rparr>"

subsection \<open>Errors and panics\<close>

text \<open>
  A Go \<open>error\<close> is a value: \<open>fmt.Errorf\<close> makes one from its formatted text, a non-zero
  \<open>unix.Errno\<close> is one, and \<open>os\<close> reports a failed file operation as a \<open>PathError\<close>
  (operation, path, errno). The \<open>nil\<close> error is \<^const>\<open>None\<close> of \<^typ>\<open>'a option\<close>.
  Indexing a string out of range does not return: it panics.
\<close>

datatype error = Errorf string | Errno uintptr | PathError string string uintptr

datatype runtime_error = IndexOutOfRange nat nat

datatype 'a go = Returns 'a | Panics runtime_error

definition index :: "string \<Rightarrow> nat \<Rightarrow> char go" where
  "index s i = (if i < length s then Returns (s ! i) else Panics (IndexOutOfRange i (length s)))"

text \<open>
  The formats of \<open>fmt.Errorf\<close> that the source uses: \<open>'%s'\<close> puts the string between
  two single quotes (the byte 0x27), and \<open>%d\<close> on an unsigned value gives its decimal
  digits.
\<close>

definition quoted :: "string \<Rightarrow> string" where
  "quoted s = [CHR 0x27] @ s @ [CHR 0x27]"

definition digit :: "nat \<Rightarrow> char" where
  "digit d = ''0123456789'' ! d"

fun decimal :: "nat \<Rightarrow> string" where
  "decimal n = (if n < 10 then [digit n] else decimal (n div 10) @ [digit (n mod 10)])"

subsection \<open>The lookup tables\<close>

definition baudMap :: "unix_consts \<Rightarrow> int \<rightharpoonup> uint32" where
  "baudMap U = map_of [
     (50, B50 U),
     (75, B75 U),
     (110, B110 U),
     (134, B134 U),
     (150, B150 U),
     (200, B200 U),
     (300, B300 U),
     (600, B600 U),
     (1200, B1200 U),
     (1800, B1800 U),
     (2400, B2400 U),
     (4800, B4800 U),
     (9600, B9600 U),
     (19200, B19200 U),
     (38400, B38400 U),
     (57600, B57600 U),
     (115200, B115200 U),
     (230400, B230400 U),
     (460800, B460800 U),
     (500000, B500000 U),
     (576000, B576000 U),
     (921600, B921600 U),
     (1000000, B1000000 U),
     (1152000, B1152000 U),
     (1500000, B1500000 U),
     (2000000, B2000000 U),
     (2500000, B2500000 U),
     (3000000, B3000000 U),
     (3500000, B3500000 U),
     (4000000, B4000000 U)]"

definition dataBitsMap :: "unix_consts \<Rightarrow> char \<rightharpoonup> uint32" where
  "dataBitsMap U = map_of [
     (CHR ''5'', CS5 U),
     (CHR ''6'', CS6 U),
     (CHR ''7'', CS7 U),
     (CHR ''8'', CS8 U)]"

definition stopBitsMap :: "unix_consts \<Rightarrow> char \<rightharpoonup> uint32" where
  "stopBitsMap U = map_of [
     (CHR ''1'', 0),
     (CHR ''2'', CSTOPB U)]"

definition parityMap :: "unix_consts \<Rightarrow> char \<rightharpoonup> uint32" where
  "parityMap U = map_of [
     (CHR ''N'', 0),
     (CHR ''O'', PARENB U OR PARODD U),
     (CHR ''E'', PARENB U)]"

subsection \<open>The port handle, the terminal attribute block and the operating system\<close>

text \<open>
  An \<open>*os.File\<close> is known to this file only through its descriptor \<open>Fd()\<close>, which is
  read off the file without a call to the operating system. The field
  \<open>file\<close> of \<open>Serial\<close> (here \<open>file'\<close>: \<open>file\<close> is a keyword) is a pointer that may be \<open>nil\<close>.
\<close>

datatype File = File (Fd: uintptr)

record Serial =
  Name :: string
  file' :: "File option"

record Termios =
  Iflag :: uint32
  Oflag :: uint32
  Cflag :: uint32
  Lflag :: uint32
  Line :: uint8
  Cc :: "uint8 list"
  Ispeed :: uint32
  Ospeed :: uint32

text \<open>
  The third argument of the \<open>ioctl\<close> system call is a \<open>uintptr\<close>: a plain number, or the
  address of the attribute block, which stands here for the block it points to.
\<close>

datatype ioctl_arg = Value uintptr | Pointer Termios

text \<open>
  The operating system is outside the source: it is a parameter \<open>os\<close>, one function per
  call the source makes, each from the state \<open>'w\<close> of the world to its result and the
  next state. Every call is recorded, with its arguments and its result, in a trace.
  \<open>os.OpenFile\<close> returns an error or a file, never both and never neither; \<open>Read\<close>
  returns the buffer as it has filled it.
\<close>

record 'w os =
  os_OpenFile :: "string \<Rightarrow> int \<Rightarrow> uint32 \<Rightarrow> 'w \<Rightarrow> (error + File) \<times> 'w"
  os_Close :: "File \<Rightarrow> 'w \<Rightarrow> error option \<times> 'w"
  os_Write :: "File \<Rightarrow> uint8 list \<Rightarrow> 'w \<Rightarrow> (int \<times> error option) \<times> 'w"
  os_Read :: "File \<Rightarrow> uint8 list \<Rightarrow> 'w \<Rightarrow> (int \<times> error option \<times> uint8 list) \<times> 'w"
  os_Syscall :: "uintptr \<Rightarrow> uintptr \<Rightarrow> uintptr \<Rightarrow> ioctl_arg \<Rightarrow> 'w
                   \<Rightarrow> (uintptr \<times> uintptr \<times> uintptr) \<times> 'w"
  os_SetNonblock :: "int \<Rightarrow> bool \<Rightarrow> 'w \<Rightarrow> error option \<times> 'w"

datatype os_event =
  OpenFile string int uint32 "error + File"
| FileClose File "error option"
| FileWrite File "uint8 list" "int \<times> error option"
| FileRead File "uint8 list" "int \<times> error option \<times> uint8 list"
| Syscall uintptr uintptr uintptr ioctl_arg "uintptr \<times> uintptr \<times> uintptr"
| SetNonblock int bool "error option"

record 'w machine =
  world :: 'w
  trace :: "os_event list"

definition call_OpenFile ::
  "'w os \<Rightarrow> string \<Rightarrow> int \<Rightarrow> uint32 \<Rightarrow> 'w machine \<Rightarrow> (error + File) \<times> 'w machine" where
  "call_OpenFile os name flag perm m =
     (let (r, w) = os_OpenFile os name flag perm (world m)
      in (r, \<lparr>world = w, trace = trace m @ [OpenFile name flag perm r]\<rparr>))"

definition call_Close :: "'w os \<Rightarrow> File \<Rightarrow> 'w machine \<Rightarrow> error option \<times> 'w machine" where
  "call_Close os f m =
     (let (r, w) = os_Close os f (world m)
      in (r, \<lparr>world = w, trace = trace m @ [FileClose f r]\<rparr>))"

definition call_Write ::
  "'w os \<Rightarrow> File \<Rightarrow> uint8 list \<Rightarrow> 'w machine \<Rightarrow> (int \<times> error option) \<times> 'w machine" where
  "call_Write os f b m =
     (let (r, w) = os_Write os f b (world m)
      in (r, \<lparr>world = w, trace = trace m @ [FileWrite f b r]\<rparr>))"

definition call_Read ::
  "'w os \<Rightarrow> File \<Rightarrow> uint8 list \<Rightarrow> 'w machine
     \<Rightarrow> (int \<times> error option \<times> uint8 list) \<times> 'w machine" where
  "call_Read os f b m =
     (let (r, w) = os_Read os f b (world m)
      in (r, \<lparr>world = w, trace = trace m @ [FileRead f b r]\<rparr>))"

definition call_Syscall ::
  "'w os \<Rightarrow> uintptr \<Rightarrow> uintptr \<Rightarrow> uintptr \<Rightarrow> ioctl_arg \<Rightarrow> 'w machine
     \<Rightarrow> (uintptr \<times> uintptr \<times> uintptr) \<times> 'w machine" where
  "call_Syscall os trap a1 a2 a3 m =
     (let (r, w) = os_Syscall os trap a1 a2 a3 (world m)
      in (r, \<lparr>world = w, trace = trace m @ [Syscall trap a1 a2 a3 r]\<rparr>))"

definition call_SetNonblock ::
  "'w os \<Rightarrow> int \<Rightarrow> bool \<Rightarrow> 'w machine \<Rightarrow> error option \<times> 'w machine" where
  "call_SetNonblock os fd nonblocking m =
     (let (r, w) = os_SetNonblock os fd nonblocking (world m)
      in (r, \<lparr>world = w, trace = trace m @ [SetNonblock fd nonblocking r]\<rparr>))"

section \<open>The functions of \<open>serial_linux.go\<close>\<close>

definition ioctl ::
  "unix_consts \<Rightarrow> 'w os \<Rightarrow> Serial \<Rightarrow> uintptr \<Rightarrow> ioctl_arg \<Rightarrow> 'w machine \<Rightarrow> uintptr \<times> 'w machine"
  where
  "ioctl U os s req arg m =
     (case file' s of
        None \<Rightarrow> (EBADFD U, m)
      | Some f \<Rightarrow>
          (let ((r1, r2, errno), m') = call_Syscall os (SYS_IOCTL U) (Fd f) req arg m
           in (errno, m')))"

definition validateConfig ::
  "unix_consts \<Rightarrow> int \<Rightarrow> string \<Rightarrow> (uint32 \<times> uint32 \<times> error option) go" where
  "validateConfig U baud cfg =
     (case baudMap U baud of
        None \<Rightarrow> Returns (0, 0, Some (Errorf ''Invalid baud rate parameter.''))
      | Some tmp \<Rightarrow>
     (let rate = tmp; flags = 0 in
      case index cfg 0 of Panics p \<Rightarrow> Panics p | Returns c0 \<Rightarrow>
     (case dataBitsMap U c0 of
        None \<Rightarrow> Returns (0, 0, Some (Errorf ''Invalid data bits parameter.''))
      | Some tmp \<Rightarrow>
     (let flags = flags OR tmp in
      case index cfg 1 of Panics p \<Rightarrow> Panics p | Returns c1 \<Rightarrow>
     (case parityMap U c1 of
        None \<Rightarrow> Returns (0, 0, Some (Errorf ''Invalid parity parameter.''))
      | Some tmp \<Rightarrow>
     (let flags = flags OR tmp in
      case index cfg 2 of Panics p \<Rightarrow> Panics p | Returns c2 \<Rightarrow>
     (case stopBitsMap U c2 of
        None \<Rightarrow> Returns (0, 0, Some (Errorf ''Invalid parity parameter.''))
      | Some tmp \<Rightarrow>
     (let flags = flags OR tmp in
      Returns (rate, flags, None)))))))))"

definition Close :: "'w os \<Rightarrow> Serial \<Rightarrow> 'w machine \<Rightarrow> error option \<times> Serial \<times> 'w machine" where
  "Close os s m =
     (case file' s of
        Some f \<Rightarrow> (let (_, m') = call_Close os f m in (None, s\<lparr>file' := None\<rparr>, m'))
      | None \<Rightarrow> (None, s, m))"

definition SetBaud ::
  "unix_consts \<Rightarrow> 'w os \<Rightarrow> Serial \<Rightarrow> int \<Rightarrow> string \<Rightarrow> 'w machine
     \<Rightarrow> (error option \<times> Serial \<times> 'w machine) go" where
  "SetBaud U os s baud cfg m =
     (case file' s of
        None \<Rightarrow> Returns (Some (Errorf (''Serial port '' @ quoted (Name s) @ '' not open.'')), s, m)
      | Some f \<Rightarrow>
     (case validateConfig U baud cfg of
        Panics p \<Rightarrow> Panics p
      | Returns (rate, flags, err) \<Rightarrow>
     (case err of
        Some e \<Rightarrow> Returns (Some e, s, m)
      | None \<Rightarrow>
     (let t = \<lparr>Iflag = IGNPAR U, Oflag = 0,
               Cflag = CREAD U OR CLOCAL U OR rate OR flags, Lflag = 0,
               Line = 0, Cc = replicate (NCCS U) 0,
               Ispeed = rate, Ospeed = rate\<rparr>;
          t = t\<lparr>Cc := (Cc t)[VMIN U := 1]\<rparr>;
          t = t\<lparr>Cc := (Cc t)[VTIME U := 4]\<rparr>;
          (errno, m1) = ioctl U os s (TCSETS U) (Pointer t) m
      in if 0 \<noteq> errno
         then Returns (Some (Errorf (''ioctl( '' @ quoted (Name s) @ '', TCSETS, &t ) error: ''
                                      @ decimal errno @ [CHR 0x0A])), s, m1)
         else (let (e, m2) = call_SetNonblock os (int (Fd f)) False m1
               in Returns (e, s, m2))))))"

definition Open ::
  "unix_consts \<Rightarrow> 'w os \<Rightarrow> Serial \<Rightarrow> 'w machine \<Rightarrow> error option \<times> Serial \<times> 'w machine" where
  "Open U os s m =
     (case file' s of
        Some _ \<Rightarrow> (Some (Errorf (''Serial port '' @ quoted (Name s) @ '' already open.'')), s, m)
      | None \<Rightarrow>
          (let (r, m1) = call_OpenFile os (Name s)
                           (O_RDWR U OR O_NOCTTY U OR O_NONBLOCK U) 0x1B6 m
           in case r of
                Inl err \<Rightarrow> (Some err, s, m1)
              | Inr f \<Rightarrow> (None, s\<lparr>file' := Some f\<rparr>, m1)))"

definition Write ::
  "'w os \<Rightarrow> Serial \<Rightarrow> uint8 list \<Rightarrow> 'w machine \<Rightarrow> (int \<times> error option) \<times> Serial \<times> 'w machine"
  where
  "Write os s b m =
     (case file' s of
        None \<Rightarrow> ((0, Some (Errorf (''Serial port '' @ quoted (Name s) @ '' not open.''))), s, m)
      | Some f \<Rightarrow> (let (r, m1) = call_Write os f b m in (r, s, m1)))"

text \<open>\<open>Read\<close> fills the caller's buffer \<open>b\<close>: the model returns the buffer after the call.\<close>

definition Read ::
  "'w os \<Rightarrow> Serial \<Rightarrow> uint8 list \<Rightarrow> 'w machine
     \<Rightarrow> (int \<times> error option) \<times> uint8 list \<times> Serial \<times> 'w machine" where
  "Read os s b m =
     (case file' s of
        None \<Rightarrow> ((0, Some (Errorf (''Serial port '' @ quoted (Name s) @ '' not open.''))), b, s, m)
      | Some f \<Rightarrow> (let ((n, err, b'), m1) = call_Read os f b m in ((n, err), b', s, m1)))"

definition Flush ::
  "unix_consts \<Rightarrow> 'w os \<Rightarrow> Serial \<Rightarrow> 'w machine \<Rightarrow> error option \<times> Serial \<times> 'w machine" where
  "Flush U os s m =
     (case file' s of
        None \<Rightarrow> (Some (Errorf (''Serial port '' @ quoted (Name s) @ '' not open.'')), s, m)
      | Some f \<Rightarrow>
          (let (errno, m1) = ioctl U os s (TCFLSH U) (Value (TCIOFLUSH U)) m
           in if 0 \<noteq> errno then (Some (Errno errno), s, m1) else (None, s, m1)))"

definition SendBreak ::
  "unix_consts \<Rightarrow> 'w os \<Rightarrow> Serial \<Rightarrow> 'w machine \<Rightarrow> error option \<times> Serial \<times> 'w machine" where
  "SendBreak U os s m =
     (case file' s of
        None \<Rightarrow> (Some (Errorf (''Serial port '' @ quoted (Name s) @ '' not open.'')), s, m)
      | Some f \<Rightarrow>
          (let (errno, m1) = ioctl U os s (TCSBRKP U) (Value 0) m
           in if 0 \<noteq> errno then (Some (Errno errno), s, m1) else (None, s, m1)))"

section \<open>What the specification names\<close>

text \<open>
  The specification lists the accepted baud values and gives the grammar
  \<open>[5678][NOE][12]\<close> of a mode string. These two definitions follow its words; the
  tables of the source are compared with them below.
\<close>

definition supported_baud_values :: "int set" where
  "supported_baud_values = {50, 75, 110, 134, 150, 200, 300, 600, 1200, 1800, 2400, 4800,
     9600, 19200, 38400, 57600, 115200, 230400, 460800, 500000, 576000, 921600, 1000000,
     1152000, 1500000, 2000000, 2500000, 3000000, 3500000, 4000000}"

definition wellformed_mode :: "string \<Rightarrow> bool" where
  "wellformed_mode cfg =
     (case cfg of
        [d, p, st] \<Rightarrow> d \<in> set ''5678'' \<and> p \<in> set ''NOE'' \<and> st \<in> set ''12''
      | _ \<Rightarrow> False)"

subsection \<open>The handle invariant\<close>

text \<open>
  The handle acquired by the most recent successful \<open>Open\<close> is read off the trace: the
  file returned by the last \<open>os.OpenFile\<close> that did not fail. The invariant of a port
  handle on a machine is that its \<open>file\<close> field is \<open>nil\<close> or that file.
\<close>

definition opened :: "os_event \<Rightarrow> File option" where
  "opened e = (case e of OpenFile name flag perm (Inr f) \<Rightarrow> Some f | _ \<Rightarrow> None)"

fun last_open :: "os_event list \<Rightarrow> File option" where
  "last_open [] = None"
| "last_open (e # es) = (case last_open es of Some g \<Rightarrow> Some g | None \<Rightarrow> opened e)"

definition handle_inv :: "Serial \<Rightarrow> 'w machine \<Rightarrow> bool" where
  "handle_inv s m = (case file' s of None \<Rightarrow> True | Some f \<Rightarrow> last_open (trace m) = Some f)"

subsection \<open>A scripted operating system\<close>

text \<open>
  A stand-in for the operating system, to run the model on concrete inputs: only
  \<open>/dev/ttyS0\<close> exists, descriptors are handed out from 3 upwards, every device-control
  request succeeds except the send-break request \<open>0x5425\<close>, which the device refuses
  with errno 25.
\<close>

definition demo_os :: "nat os" where
  "demo_os = \<lparr>
     os_OpenFile = (\<lambda>name flag perm w.
        if name = ''/dev/ttyS0'' then (Inr (File (3 + w)), Suc w)
        else (Inl (PathError ''open'' name 2), w)),
     os_Close = (\<lambda>f w. (None, w)),
     os_Write = (\<lambda>f b w. ((int (length b), None), w)),
     os_Read = (\<lambda>f b w. ((0, None, b), w)),
     os_Syscall = (\<lambda>trap a1 a2 a3 w. if a2 = 0x5425 then ((0, 0, 25), w) else ((0, 0, 0), w)),
     os_SetNonblock = (\<lambda>fd nonblocking w. (None, w)) \<rparr>"

definition closed_port :: Serial where
  "closed_port = \<lparr>Name = ''/dev/ttyS0'', file' = None\<rparr>"

definition open_port :: Serial where
  "open_port = \<lparr>Name = ''/dev/ttyS0'', file' = Some (File 3)\<rparr>"

definition no_such_port :: Serial where
  "no_such_port = \<lparr>Name = ''/dev/ttyS9'', file' = None\<rparr>"

definition boot :: "nat machine" where
  "boot = \<lparr>world = 0, trace = []\<rparr>"

definition after_open :: "nat machine" where
  "after_open = \<lparr>world = 1, trace = [OpenFile ''/dev/ttyS0'' 0x902 0x1B6 (Inr (File 3))]\<rparr>"

section \<open>The tables\<close>

lemma card_supported: "card supported_baud_values = 30"
  by (simp add: supported_baud_values_def)

lemma baudMap_dom: "dom (baudMap U) = supported_baud_values"
  by (simp add: baudMap_def supported_baud_values_def dom_map_of_conv_image_fst)

lemma dataBitsMap_dom: "dom (dataBitsMap U) = set ''5678''"
  by (simp add: dataBitsMap_def dom_map_of_conv_image_fst)

lemma parityMap_dom: "dom (parityMap U) = set ''NOE''"
  by (simp add: parityMap_def dom_map_of_conv_image_fst)

lemma stopBitsMap_dom: "dom (stopBitsMap U) = set ''12''"
  by (simp add: stopBitsMap_def dom_map_of_conv_image_fst)

lemma linux_tables:
  "baudMap linux_amd64 9600 = Some 0xd"
  "dataBitsMap linux_amd64 CHR ''8'' = Some 0x30"
  "parityMap linux_amd64 CHR ''N'' = Some 0"
  "stopBitsMap linux_amd64 CHR ''1'' = Some 0"
  by (simp_all add: baudMap_def dataBitsMap_def parityMap_def stopBitsMap_def linux_amd64_def)

lemma linux_consts:
  "O_RDWR linux_amd64 OR O_NOCTTY linux_amd64 OR O_NONBLOCK linux_amd64 = 0x902"
  "SYS_IOCTL linux_amd64 = 16" "EBADFD linux_amd64 = 77"
  "TCSETS linux_amd64 = 0x5402" "TCFLSH linux_amd64 = 0x540b"
  "TCIOFLUSH linux_amd64 = 2" "TCSBRKP linux_amd64 = 0x5425"
  "NCCS linux_amd64 = 19" "VMIN linux_amd64 = 6" "VTIME linux_amd64 = 5"
  "IGNPAR linux_amd64 = 0x4" "CREAD linux_amd64 = 0x80" "CLOCAL linux_amd64 = 0x800"
  by (simp_all add: linux_amd64_def)

lemma demo_os_simps:
  "os_OpenFile demo_os name flag perm w =
     (if name = ''/dev/ttyS0'' then (Inr (File (3 + w)), Suc w)
      else (Inl (PathError ''open'' name 2), w))"
  "os_Close demo_os f w = (None, w)"
  "os_Write demo_os f b w = ((int (length b), None), w)"
  "os_Read demo_os f b w = ((0, None, b), w)"
  "os_Syscall demo_os trap a1 a2 a3 w =
     (if a2 = 0x5425 then ((0, 0, 25), w) else ((0, 0, 0), w))"
  "os_SetNonblock demo_os fd nonblocking w = (None, w)"
  by (simp_all add: demo_os_def)

lemma wellformed_modeD:
  assumes "wellformed_mode cfg"
  shows "length cfg = 3" "cfg ! 0 \<in> dom (dataBitsMap U)" "cfg ! 1 \<in> dom (parityMap U)"
    "cfg ! 2 \<in> dom (stopBitsMap U)"
proof -
  from assms obtain c0 c1 c2 where cfg: "cfg = [c0, c1, c2]"
    by (simp add: wellformed_mode_def split: list.splits)
  from assms show "length cfg = 3"
    by (simp add: cfg)
  from assms have "c0 \<in> set ''5678''" "c1 \<in> set ''NOE''" "c2 \<in> set ''12''"
    unfolding wellformed_mode_def cfg by simp_all
  then show "cfg ! 0 \<in> dom (dataBitsMap U)" "cfg ! 1 \<in> dom (parityMap U)"
    "cfg ! 2 \<in> dom (stopBitsMap U)"
    unfolding dataBitsMap_dom parityMap_dom stopBitsMap_dom cfg by simp_all
qed

lemma wellformed_mode_three:
  "length cfg = 3 \<Longrightarrow>
   wellformed_mode cfg \<longleftrightarrow>
     cfg ! 0 \<in> set ''5678'' \<and> cfg ! 1 \<in> set ''NOE'' \<and> cfg ! 2 \<in> set ''12''"
  by (cases cfg rule: list.exhaust; cases "tl cfg"; cases "tl (tl cfg)")
     (auto simp: wellformed_mode_def)

section \<open>The configuration validator\<close>

text \<open>
  Once the mode string has its three bytes, no index can panic, and \<open>validateConfig\<close>
  is the chain of the four lookups.
\<close>

lemma validateConfig_baud_unsupported:
  "baudMap U baud = None \<Longrightarrow>
   validateConfig U baud cfg = Returns (0, 0, Some (Errorf ''Invalid baud rate parameter.''))"
  by (simp add: validateConfig_def)

lemma validateConfig_three:
  assumes "3 \<le> length cfg"
  shows "validateConfig U baud cfg =
     (case baudMap U baud of
        None \<Rightarrow> Returns (0, 0, Some (Errorf ''Invalid baud rate parameter.''))
      | Some rate \<Rightarrow>
     (case dataBitsMap U (cfg ! 0) of
        None \<Rightarrow> Returns (0, 0, Some (Errorf ''Invalid data bits parameter.''))
      | Some d \<Rightarrow>
     (case parityMap U (cfg ! 1) of
        None \<Rightarrow> Returns (0, 0, Some (Errorf ''Invalid parity parameter.''))
      | Some p \<Rightarrow>
     (case stopBitsMap U (cfg ! 2) of
        None \<Rightarrow> Returns (0, 0, Some (Errorf ''Invalid parity parameter.''))
      | Some st \<Rightarrow> Returns (rate, d OR p OR st, None)))))"
proof -
  from assms have "cfg \<noteq> []" "Suc 0 < length cfg" "2 < length cfg"
    by auto
  then show ?thesis
    by (cases "baudMap U baud"; cases "dataBitsMap U (cfg ! 0)";
        cases "parityMap U (cfg ! 1)"; cases "stopBitsMap U (cfg ! 2)")
       (simp_all add: validateConfig_def index_def or.assoc)
qed

lemma validateConfig_error_zero:
  assumes "validateConfig U baud cfg = Returns (rate, flags, Some e)"
  shows "rate = 0 \<and> flags = 0"
proof (cases "baudMap U baud")
  case None
  with assms show ?thesis by (simp add: validateConfig_def)
next
  case b: (Some r)
  show ?thesis
  proof (cases "index cfg 0")
    case (Panics x)
    with assms b show ?thesis by (simp add: validateConfig_def)
  next
    case i0: (Returns c0)
    show ?thesis
    proof (cases "dataBitsMap U c0")
      case None
      with assms b i0 show ?thesis by (simp add: validateConfig_def)
    next
      case d: (Some dv)
      show ?thesis
      proof (cases "index cfg 1")
        case (Panics x)
        with assms b i0 d show ?thesis by (simp add: validateConfig_def)
      next
        case i1: (Returns c1)
        show ?thesis
        proof (cases "parityMap U c1")
          case None
          with assms b i0 d i1 show ?thesis by (simp add: validateConfig_def)
        next
          case p: (Some pv)
          show ?thesis
          proof (cases "index cfg 2")
            case (Panics x)
            with assms b i0 d i1 p show ?thesis by (simp add: validateConfig_def)
          next
            case i2: (Returns c2)
            from assms b i0 d i1 p i2 show ?thesis
              by (cases "stopBitsMap U c2") (simp_all add: validateConfig_def)
          qed
        qed
      qed
    qed
  qed
qed

lemma validateConfig_take:
  assumes "3 \<le> length cfg"
  shows "validateConfig U baud cfg = validateConfig U baud (take 3 cfg)"
proof -
  have len: "3 \<le> length (take 3 cfg)"
    using assms by simp
  have bytes: "take 3 cfg ! 0 = cfg ! 0" "take 3 cfg ! 1 = cfg ! 1" "take 3 cfg ! 2 = cfg ! 2"
    by simp_all
  show ?thesis
    unfolding validateConfig_three [OF len] validateConfig_three [OF assms] bytes ..
qed

lemma validateConfig_rejects_iff:
  assumes "3 \<le> length cfg"
  shows "(\<exists>rate flags e. validateConfig U baud cfg = Returns (rate, flags, Some e)) \<longleftrightarrow>
     (baud \<notin> dom (baudMap U) \<or> cfg ! 0 \<notin> dom (dataBitsMap U) \<or>
      cfg ! 1 \<notin> dom (parityMap U) \<or> cfg ! 2 \<notin> dom (stopBitsMap U))"
  unfolding validateConfig_three [OF assms]
  by (cases "baudMap U baud"; cases "dataBitsMap U (cfg ! 0)";
      cases "parityMap U (cfg ! 1)"; cases "stopBitsMap U (cfg ! 2)")
     (simp_all add: domIff)

lemma validateConfig_short:
  assumes "length cfg < 3"
  shows "validateConfig U baud cfg \<noteq> Returns (rate, flags, None)"
proof (cases "baudMap U baud")
  case None
  then show ?thesis by (simp add: validateConfig_def)
next
  case b: (Some r)
  show ?thesis
  proof (cases "index cfg 0")
    case (Panics x)
    with b show ?thesis by (simp add: validateConfig_def)
  next
    case i0: (Returns c0)
    show ?thesis
    proof (cases "dataBitsMap U c0")
      case None
      with b i0 show ?thesis by (simp add: validateConfig_def)
    next
      case d: (Some dv)
      show ?thesis
      proof (cases "index cfg 1")
        case (Panics x)
        with b i0 d show ?thesis by (simp add: validateConfig_def)
      next
        case i1: (Returns c1)
        show ?thesis
        proof (cases "parityMap U c1")
          case None
          with b i0 d i1 show ?thesis by (simp add: validateConfig_def)
        next
          case p: (Some pv)
          from assms have "index cfg 2 = Panics (IndexOutOfRange 2 (length cfg))"
            by (simp add: index_def)
          with b i0 d i1 p show ?thesis by (simp add: validateConfig_def)
        qed
      qed
    qed
  qed
qed

text \<open>
  The source indexes the mode string without looking at its length: with a supported
  baud rate and an empty mode string, \<open>cfg[0]\<close> panics.
\<close>

lemma validateConfig_empty_panics:
  "baud \<in> supported_baud_values \<Longrightarrow> validateConfig U baud [] = Panics (IndexOutOfRange 0 0)"
proof -
  assume "baud \<in> supported_baud_values"
  then have "baud \<in> dom (baudMap U)"
    by (simp add: baudMap_dom)
  then obtain r where "baudMap U baud = Some r"
    by (auto dest: domD)
  then show ?thesis
    by (simp add: validateConfig_def index_def)
qed

text \<open>
  Claim C1. For every baud rate of the supported set of 30 values and every mode string
  of three characters matching \<open>[5678][NOE][12]\<close>, \<open>validateConfig\<close> returns no error,
  the rate that \<open>baudMap\<close> holds for the baud rate, and as flags the bitwise union of the
  entries of \<open>dataBitsMap\<close>, \<open>parityMap\<close> and \<open>stopBitsMap\<close> for the three characters.
  For every other baud rate it returns the invalid-baud-rate error, whatever the mode
  string.
\<close>

theorem validateConfig_supported:
  "(baud \<in> supported_baud_values \<and> wellformed_mode cfg \<longrightarrow>
      (\<exists>rate d p st.
         baudMap U baud = Some rate \<and> dataBitsMap U (cfg ! 0) = Some d \<and>
         parityMap U (cfg ! 1) = Some p \<and> stopBitsMap U (cfg ! 2) = Some st \<and>
         validateConfig U baud cfg = Returns (rate, d OR p OR st, None))) \<and>
   (baud \<notin> supported_baud_values \<longrightarrow>
      validateConfig U baud cfg =
        Returns (0, 0, Some (Errorf ''Invalid baud rate parameter.'')))"
proof (intro conjI impI)
  assume a: "baud \<in> supported_baud_values \<and> wellformed_mode cfg"
  then have "baud \<in> dom (baudMap U)"
    by (simp add: baudMap_dom)
  then obtain rate where rate: "baudMap U baud = Some rate"
    by (auto dest: domD)
  from a have wf: "wellformed_mode cfg" ..
  from wellformed_modeD(2) [OF wf] obtain d where d: "dataBitsMap U (cfg ! 0) = Some d"
    by (auto dest: domD)
  from wellformed_modeD(3) [OF wf] obtain p where p: "parityMap U (cfg ! 1) = Some p"
    by (auto dest: domD)
  from wellformed_modeD(4) [OF wf] obtain st where st: "stopBitsMap U (cfg ! 2) = Some st"
    by (auto dest: domD)
  have len: "3 \<le> length cfg"
    by (simp add: wellformed_modeD(1) [OF wf])
  have "validateConfig U baud cfg = Returns (rate, d OR p OR st, None)"
    unfolding validateConfig_three [OF len] rate d p st by simp
  with rate d p st show "\<exists>rate d p st.
         baudMap U baud = Some rate \<and> dataBitsMap U (cfg ! 0) = Some d \<and>
         parityMap U (cfg ! 1) = Some p \<and> stopBitsMap U (cfg ! 2) = Some st \<and>
         validateConfig U baud cfg = Returns (rate, d OR p OR st, None)"
    by blast
next
  assume "baud \<notin> supported_baud_values"
  then have "baudMap U baud = None"
    by (simp add: baudMap_dom [of U, symmetric] domIff)
  then show "validateConfig U baud cfg =
        Returns (0, 0, Some (Errorf ''Invalid baud rate parameter.''))"
    by (rule validateConfig_baud_unsupported)
qed

text \<open>
The validator at 9600 baud, mode \<open>8N1\<close>, and at the unsupported baud rate 1.
\<close>

theorem validateConfig_supported_witness:
  "9600 \<in> supported_baud_values \<and> wellformed_mode ''8N1'' \<and>
   validateConfig linux_amd64 9600 ''8N1'' = Returns (0xd, 0x30, None) \<and>
   1 \<notin> supported_baud_values \<and>
   validateConfig linux_amd64 1 ''8N1'' =
     Returns (0, 0, Some (Errorf ''Invalid baud rate parameter.''))"
  using validateConfig_supported [of 9600 "''8N1''" linux_amd64]
    validateConfig_supported [of 1 "''8N1''" linux_amd64]
  by (simp add: supported_baud_values_def wellformed_mode_def linux_tables)

text \<open>
  Claim C2, as stated: every mode string whose length is not 3 is rejected with an
  error. The source has no length check; \<open>8N1X\<close> has four characters and is accepted.
\<close>

theorem validateConfig_length_counterexample:
  "length ''8N1X'' \<noteq> 3 \<and> validateConfig linux_amd64 9600 ''8N1X'' = Returns (0xd, 0x30, None)"
  by (simp add: validateConfig_three linux_tables)

text \<open>
  Claim C2, amended. \<open>validateConfig\<close> reads the bytes 0, 1 and 2 of the mode string
  and nothing else. On a mode string of at least three bytes it returns what it returns
  on the first three, so such a string is rejected with an error exactly when the baud
  rate is unsupported or the first three bytes do not match \<open>[5678][NOE][12]\<close>. A mode
  string of fewer than three bytes is never accepted. With an unsupported baud rate
  every mode string, of any length, is rejected with the invalid-baud-rate error.
\<close>

theorem validateConfig_length:
  "(3 \<le> length cfg \<longrightarrow>
      validateConfig U baud cfg = validateConfig U baud (take 3 cfg) \<and>
      ((\<exists>rate flags e. validateConfig U baud cfg = Returns (rate, flags, Some e)) \<longleftrightarrow>
       (baud \<notin> supported_baud_values \<or> \<not> wellformed_mode (take 3 cfg)))) \<and>
   (length cfg < 3 \<longrightarrow> (\<forall>rate flags. validateConfig U baud cfg \<noteq> Returns (rate, flags, None))) \<and>
   (baud \<notin> supported_baud_values \<longrightarrow>
      validateConfig U baud cfg =
        Returns (0, 0, Some (Errorf ''Invalid baud rate parameter.'')))"
proof (intro conjI impI allI)
  assume len: "3 \<le> length cfg"
  then show "validateConfig U baud cfg = validateConfig U baud (take 3 cfg)"
    by (rule validateConfig_take)
  from len have "length (take 3 cfg) = 3"
    by simp
  from wellformed_mode_three [OF this] len
  have "wellformed_mode (take 3 cfg) \<longleftrightarrow>
     cfg ! 0 \<in> set ''5678'' \<and> cfg ! 1 \<in> set ''NOE'' \<and> cfg ! 2 \<in> set ''12''"
    by simp
  then show "(\<exists>rate flags e. validateConfig U baud cfg = Returns (rate, flags, Some e)) \<longleftrightarrow>
       (baud \<notin> supported_baud_values \<or> \<not> wellformed_mode (take 3 cfg))"
    unfolding validateConfig_rejects_iff [OF len] baudMap_dom dataBitsMap_dom parityMap_dom
      stopBitsMap_dom
    by blast
next
  fix rate flags
  assume "length cfg < 3"
  then show "validateConfig U baud cfg \<noteq> Returns (rate, flags, None)"
    by (rule validateConfig_short)
next
  assume "baud \<notin> supported_baud_values"
  then have "baudMap U baud = None"
    by (simp add: baudMap_dom [of U, symmetric] domIff)
  then show "validateConfig U baud cfg =
        Returns (0, 0, Some (Errorf ''Invalid baud rate parameter.''))"
    by (rule validateConfig_baud_unsupported)
qed

theorem validateConfig_length_witness:
  "3 \<le> length ''8N1X'' \<and>
   validateConfig linux_amd64 9600 ''8N1X'' = validateConfig linux_amd64 9600 ''8N1'' \<and>
   9600 \<in> supported_baud_values \<and> wellformed_mode (take 3 ''8N1X'') \<and>
   \<not> (\<exists>rate flags e. validateConfig linux_amd64 9600 ''8N1X'' = Returns (rate, flags, Some e)) \<and>
   length ''8N'' < 3 \<and>
   validateConfig linux_amd64 9600 ''8N'' \<noteq> Returns (0xd, 0x30, None) \<and>
   1 \<notin> supported_baud_values \<and>
   validateConfig linux_amd64 1 ''8N1X'' =
     Returns (0, 0, Some (Errorf ''Invalid baud rate parameter.''))"
proof -
  have a: "3 \<le> length ''8N1X''" "length ''8N'' < 3"
    by simp_all
  have b: "9600 \<in> supported_baud_values" "1 \<notin> supported_baud_values"
    by (simp_all add: supported_baud_values_def)
  have c: "wellformed_mode (take 3 ''8N1X'')"
    by (simp add: wellformed_mode_def)
  from validateConfig_length [of "''8N1X''" linux_amd64 9600] a b c
  have "validateConfig linux_amd64 9600 ''8N1X'' =
      validateConfig linux_amd64 9600 (take 3 ''8N1X'')"
    and d: "\<not> (\<exists>rate flags e.
      validateConfig linux_amd64 9600 ''8N1X'' = Returns (rate, flags, Some e))"
    by blast+
  then have "validateConfig linux_amd64 9600 ''8N1X'' = validateConfig linux_amd64 9600 ''8N1''"
    by simp
  moreover note d
  moreover from validateConfig_length [of "''8N''" linux_amd64 9600] a
  have "validateConfig linux_amd64 9600 ''8N'' \<noteq> Returns (0xd, 0x30, None)"
    by blast
  moreover from validateConfig_length [of "''8N1X''" linux_amd64 1] b
  have "validateConfig linux_amd64 1 ''8N1X'' =
     Returns (0, 0, Some (Errorf ''Invalid baud rate parameter.''))"
    by blast
  ultimately show ?thesis
    using a b c by blast
qed

text \<open>
  Claim C4. When the stop-bits character \<open>mode[2]\<close> is neither \<open>1\<close> nor \<open>2\<close>, the
  failure of the stop-bits lookup is reported with the text of the parity error,
  \<open>Invalid parity parameter.\<close>: that is the error returned once the baud rate, the data
  bits and the parity have passed, and in every case the error returned is one of the
  baud, data-bits and parity messages, never one of its own for the stop bits.
\<close>

theorem stop_bits_message:
  "3 \<le> length cfg \<and> cfg ! 2 \<notin> {CHR ''1'', CHR ''2''} \<longrightarrow>
     (baud \<in> supported_baud_values \<and> cfg ! 0 \<in> set ''5678'' \<and> cfg ! 1 \<in> set ''NOE'' \<longrightarrow>
        validateConfig U baud cfg =
          Returns (0, 0, Some (Errorf ''Invalid parity parameter.''))) \<and>
     (\<exists>msg \<in> {''Invalid baud rate parameter.'', ''Invalid data bits parameter.'',
                ''Invalid parity parameter.''}.
        validateConfig U baud cfg = Returns (0, 0, Some (Errorf msg)))"
proof (intro impI, elim conjE)
  assume len: "3 \<le> length cfg" and "cfg ! 2 \<notin> {CHR ''1'', CHR ''2''}"
  then have "cfg ! 2 \<notin> dom (stopBitsMap U)"
    by (simp add: stopBitsMap_dom)
  then have st: "stopBitsMap U (cfg ! 2) = None"
    by (simp add: domIff)
  have reached: "validateConfig U baud cfg =
      Returns (0, 0, Some (Errorf ''Invalid parity parameter.''))"
    if "baud \<in> supported_baud_values \<and> cfg ! 0 \<in> set ''5678'' \<and> cfg ! 1 \<in> set ''NOE''"
  proof -
    from that have "baud \<in> dom (baudMap U)" "cfg ! 0 \<in> dom (dataBitsMap U)"
      "cfg ! 1 \<in> dom (parityMap U)"
      by (simp_all only: baudMap_dom dataBitsMap_dom parityMap_dom)
    then obtain r d p where "baudMap U baud = Some r" "dataBitsMap U (cfg ! 0) = Some d"
      "parityMap U (cfg ! 1) = Some p"
      by (auto dest!: domD)
    then show ?thesis
      unfolding validateConfig_three [OF len] st by simp
  qed
  have any: "\<exists>msg \<in> {''Invalid baud rate parameter.'', ''Invalid data bits parameter.'',
                ''Invalid parity parameter.''}.
        validateConfig U baud cfg = Returns (0, 0, Some (Errorf msg))"
    unfolding validateConfig_three [OF len] st
    by (cases "baudMap U baud"; cases "dataBitsMap U (cfg ! 0)"; cases "parityMap U (cfg ! 1)")
       simp_all
  from reached any show "(baud \<in> supported_baud_values \<and> cfg ! 0 \<in> set ''5678'' \<and> cfg ! 1 \<in> set ''NOE'' \<longrightarrow>
        validateConfig U baud cfg =
          Returns (0, 0, Some (Errorf ''Invalid parity parameter.''))) \<and>
     (\<exists>msg \<in> {''Invalid baud rate parameter.'', ''Invalid data bits parameter.'',
                ''Invalid parity parameter.''}.
        validateConfig U baud cfg = Returns (0, 0, Some (Errorf msg)))"
    by blast
qed

theorem stop_bits_message_witness:
  "3 \<le> length ''8N3'' \<and> ''8N3'' ! 2 \<notin> {CHR ''1'', CHR ''2''} \<and>
   9600 \<in> supported_baud_values \<and> ''8N3'' ! 0 \<in> set ''5678'' \<and> ''8N3'' ! 1 \<in> set ''NOE'' \<and>
   validateConfig linux_amd64 9600 ''8N3'' =
     Returns (0, 0, Some (Errorf ''Invalid parity parameter.''))"
proof -
  have a: "3 \<le> length ''8N3'' \<and> ''8N3'' ! 2 \<notin> {CHR ''1'', CHR ''2''}"
    by simp
  have b: "9600 \<in> supported_baud_values \<and> ''8N3'' ! 0 \<in> set ''5678'' \<and>
      ''8N3'' ! 1 \<in> set ''NOE''"
    by (simp add: supported_baud_values_def)
  from stop_bits_message [of "''8N3''" 9600 linux_amd64] a b
  have "validateConfig linux_amd64 9600 ''8N3'' =
     Returns (0, 0, Some (Errorf ''Invalid parity parameter.''))"
    by blast
  with a b show ?thesis
    by blast
qed

text \<open>
  Claim C6. Whenever \<open>validateConfig\<close> returns an error, the rate and the flags it
  returns with it are both 0; and an unsupported baud rate, data-bits, parity or
  stop-bits field makes it return such an error.
\<close>

theorem validateConfig_failure_zero:
  "(validateConfig U baud cfg = Returns (rate, flags, Some e) \<longrightarrow> rate = 0 \<and> flags = 0) \<and>
   (baud \<notin> supported_baud_values \<or>
    3 \<le> length cfg \<and>
      (cfg ! 0 \<notin> set ''5678'' \<or> cfg ! 1 \<notin> set ''NOE'' \<or> cfg ! 2 \<notin> set ''12'') \<longrightarrow>
      (\<exists>e. validateConfig U baud cfg = Returns (0, 0, Some e)))"
proof (rule conjI; rule impI)
  assume "validateConfig U baud cfg = Returns (rate, flags, Some e)"
  then show "rate = 0 \<and> flags = 0"
    by (rule validateConfig_error_zero)
next
  assume a: "baud \<notin> supported_baud_values \<or>
    3 \<le> length cfg \<and>
      (cfg ! 0 \<notin> set ''5678'' \<or> cfg ! 1 \<notin> set ''NOE'' \<or> cfg ! 2 \<notin> set ''12'')"
  show "\<exists>e. validateConfig U baud cfg = Returns (0, 0, Some e)"
  proof (cases "baud \<in> supported_baud_values")
    case False
    then have "baudMap U baud = None"
      by (simp add: baudMap_dom [of U, symmetric] domIff)
    then show ?thesis
      by (simp add: validateConfig_baud_unsupported)
  next
    case True
    with a have len: "3 \<le> length cfg"
      and "cfg ! 0 \<notin> set ''5678'' \<or> cfg ! 1 \<notin> set ''NOE'' \<or> cfg ! 2 \<notin> set ''12''"
      by blast+
    then have "baud \<notin> dom (baudMap U) \<or> cfg ! 0 \<notin> dom (dataBitsMap U) \<or>
        cfg ! 1 \<notin> dom (parityMap U) \<or> cfg ! 2 \<notin> dom (stopBitsMap U)"
      unfolding baudMap_dom dataBitsMap_dom parityMap_dom stopBitsMap_dom by blast
    with validateConfig_rejects_iff [OF len, of U baud]
    obtain r f e where r: "validateConfig U baud cfg = Returns (r, f, Some e)"
      by blast
    from validateConfig_error_zero [OF r] r show ?thesis
      by blast
  qed
qed

theorem validateConfig_failure_zero_witness:
  "validateConfig linux_amd64 9600 ''8X1'' =
     Returns (0, 0, Some (Errorf ''Invalid parity parameter.'')) \<and>
   3 \<le> length ''8X1'' \<and> ''8X1'' ! 1 \<notin> set ''NOE'' \<and>
   (\<exists>e. validateConfig linux_amd64 9600 ''8X1'' = Returns (0, 0, Some e))"
proof -
  have run: "validateConfig linux_amd64 9600 ''8X1'' =
     Returns (0, 0, Some (Errorf ''Invalid parity parameter.''))"
    by (simp add: validateConfig_three linux_tables parityMap_def)
  have a: "3 \<le> length ''8X1'' \<and> ''8X1'' ! 1 \<notin> set ''NOE''"
    by simp
  from validateConfig_failure_zero
    [of linux_amd64 9600 "''8X1''" 0 0 "Errorf ''Invalid parity parameter.''"] a
  have "\<exists>e. validateConfig linux_amd64 9600 ''8X1'' = Returns (0, 0, Some e)"
    by blast
  with run a show ?thesis
    by blast
qed

section \<open>The port handle\<close>

lemma ioctl_open:
  "file' s = Some f \<Longrightarrow> os_Syscall os (SYS_IOCTL U) (Fd f) req arg (world m) = ((r1, r2, errno), w) \<Longrightarrow>
   ioctl U os s req arg m =
     (errno, \<lparr>world = w, trace = trace m @ [Syscall (SYS_IOCTL U) (Fd f) req arg (r1, r2, errno)]\<rparr>)"
  by (simp add: ioctl_def call_Syscall_def)

lemma Cc_assembled:
  assumes "vmin < n" "vtime < n" "vmin \<noteq> vtime"
  shows "((replicate n (0::uint8))[vmin := 1])[vtime := 4] ! vmin = 1"
    and "((replicate n (0::uint8))[vmin := 1])[vtime := 4] ! vtime = 4"
  using assms by simp_all

lemma last_open_snoc:
  "last_open (es @ [e]) = (case opened e of Some f \<Rightarrow> Some f | None \<Rightarrow> last_open es)"
  by (induction es) (simp_all split: option.splits)

lemma opened_simps:
  "opened (OpenFile name flag perm (Inr f)) = Some f"
  "opened (OpenFile name flag perm (Inl err)) = None"
  "opened (FileClose f r1) = None"
  "opened (FileWrite f b r2) = None"
  "opened (FileRead f b r3) = None"
  "opened (Syscall trap a1 a2 a3 r4) = None"
  "opened (SetNonblock fd nb r5) = None"
  by (simp_all add: opened_def)

lemma handle_inv_snoc:
  "handle_inv s m \<Longrightarrow> opened ev = None \<Longrightarrow> handle_inv s \<lparr>world = w, trace = trace m @ [ev]\<rparr>"
  by (simp add: handle_inv_def last_open_snoc split: option.splits)

text \<open>
  Claim C9. When the port handle has no open file, the \<open>ioctl\<close> helper returns \<open>EBADFD\<close>
  and makes no system call: the machine, its trace included, is unchanged.
\<close>

theorem ioctl_not_open:
  "file' s = None \<Longrightarrow> ioctl U os s req arg m = (EBADFD U, m)"
  by (simp add: ioctl_def)

theorem ioctl_not_open_witness:
  "file' closed_port = None \<and>
   ioctl linux_amd64 demo_os closed_port 0x540b (Value 2) boot = (77, boot)"
  using ioctl_not_open [of closed_port linux_amd64 demo_os "0x540b" "Value 2" boot]
  by (simp add: closed_port_def linux_consts)

text \<open>
  Claim C5. On a port handle whose \<open>file\<close> is \<open>nil\<close>, \<open>SetBaud\<close>, \<open>Read\<close>, \<open>Write\<close>,
  \<open>Flush\<close> and \<open>SendBreak\<close> return the error \<open>Serial port '<name>' not open.\<close> and make
  no call to the operating system: the machine, its trace included, is unchanged, and
  so are the handle and the buffer.
\<close>

theorem not_open:
  "file' s = None \<Longrightarrow>
     SetBaud U os s baud cfg m =
       Returns (Some (Errorf (''Serial port '' @ quoted (Name s) @ '' not open.'')), s, m) \<and>
     Read os s b m =
       ((0, Some (Errorf (''Serial port '' @ quoted (Name s) @ '' not open.''))), b, s, m) \<and>
     Write os s b m =
       ((0, Some (Errorf (''Serial port '' @ quoted (Name s) @ '' not open.''))), s, m) \<and>
     Flush U os s m =
       (Some (Errorf (''Serial port '' @ quoted (Name s) @ '' not open.'')), s, m) \<and>
     SendBreak U os s m =
       (Some (Errorf (''Serial port '' @ quoted (Name s) @ '' not open.'')), s, m)"
  by (simp add: SetBaud_def Read_def Write_def Flush_def SendBreak_def)

theorem not_open_witness:
  "file' closed_port = None \<and>
   SetBaud linux_amd64 demo_os closed_port 9600 ''8N1'' boot =
     Returns (Some (Errorf ''Serial port '/dev/ttyS0' not open.''), closed_port, boot) \<and>
   Read demo_os closed_port [0, 0] boot =
     ((0, Some (Errorf ''Serial port '/dev/ttyS0' not open.'')), [0, 0], closed_port, boot) \<and>
   Write demo_os closed_port [1, 2] boot =
     ((0, Some (Errorf ''Serial port '/dev/ttyS0' not open.'')), closed_port, boot) \<and>
   Flush linux_amd64 demo_os closed_port boot =
     (Some (Errorf ''Serial port '/dev/ttyS0' not open.''), closed_port, boot) \<and>
   SendBreak linux_amd64 demo_os closed_port boot =
     (Some (Errorf ''Serial port '/dev/ttyS0' not open.''), closed_port, boot)"
  using not_open [of closed_port linux_amd64 demo_os 9600 "''8N1''" boot "[0, 0]"]
    not_open [of closed_port linux_amd64 demo_os 9600 "''8N1''" boot "[1, 2]"]
  by (simp add: closed_port_def quoted_def)

text \<open>
  Claim C7. On an open port, \<open>Flush\<close> makes exactly one call, the \<open>ioctl\<close> system call
  with request \<open>TCFLSH\<close> and argument \<open>TCIOFLUSH\<close>, and \<open>SendBreak\<close> exactly one, with
  request \<open>TCSBRKP\<close> and argument 0. A non-zero errno of that call is returned as the
  error, a zero one as no error.
\<close>

theorem Flush_SendBreak_open:
  "file' s = Some f \<Longrightarrow>
   (os_Syscall os (SYS_IOCTL U) (Fd f) (TCFLSH U) (Value (TCIOFLUSH U)) (world m)
      = ((r1, r2, errno), w) \<longrightarrow>
    Flush U os s m =
      (if errno \<noteq> 0 then Some (Errno errno) else None, s,
       \<lparr>world = w,
        trace = trace m @
          [Syscall (SYS_IOCTL U) (Fd f) (TCFLSH U) (Value (TCIOFLUSH U)) (r1, r2, errno)]\<rparr>)) \<and>
   (os_Syscall os (SYS_IOCTL U) (Fd f) (TCSBRKP U) (Value 0) (world m)
      = ((r1', r2', errno'), w') \<longrightarrow>
    SendBreak U os s m =
      (if errno' \<noteq> 0 then Some (Errno errno') else None, s,
       \<lparr>world = w',
        trace = trace m @
          [Syscall (SYS_IOCTL U) (Fd f) (TCSBRKP U) (Value 0) (r1', r2', errno')]\<rparr>))"
  by (simp add: Flush_def SendBreak_def ioctl_open)

theorem Flush_SendBreak_open_witness:
  "file' open_port = Some (File 3) \<and>
   Flush linux_amd64 demo_os open_port boot =
     (None, open_port, \<lparr>world = 0, trace = [Syscall 16 3 0x540b (Value 2) (0, 0, 0)]\<rparr>) \<and>
   SendBreak linux_amd64 demo_os open_port boot =
     (Some (Errno 25), open_port,
      \<lparr>world = 0, trace = [Syscall 16 3 0x5425 (Value 0) (0, 0, 25)]\<rparr>)"
  using Flush_SendBreak_open [of open_port "File 3" demo_os linux_amd64 boot 0 0 0 0 0 0 25 0]
  by (simp add: open_port_def boot_def linux_consts demo_os_simps)

text \<open>
  Claim C3. On an open port and with a baud rate and mode that \<open>validateConfig\<close>
  accepts, \<open>SetBaud\<close> passes to the \<open>ioctl\<close> system call, with request \<open>TCSETS\<close>, an
  attribute block with input flags \<open>IGNPAR\<close>, control flags
  \<open>CREAD | CLOCAL | rate | flags\<close>, input and output speed \<open>rate\<close>, \<open>Cc[VMIN] = 1\<close> and
  \<open>Cc[VTIME] = 4\<close>. If that call fails, \<open>SetBaud\<close> returns an error and calls nothing
  else; if it succeeds, \<open>SetBaud\<close> calls \<open>SetNonblock\<close> with \<open>false\<close> on the descriptor and
  returns what that call returns. The indexes \<open>VMIN\<close> and \<open>VTIME\<close> are two different
  places of the array \<open>Cc\<close>.
\<close>

theorem SetBaud_open:
  assumes "file' s = Some f"
    and "validateConfig U baud cfg = Returns (rate, flags, None)"
    and "VMIN U < NCCS U" and "VTIME U < NCCS U" and "VMIN U \<noteq> VTIME U"
  shows "\<exists>t. Iflag t = IGNPAR U \<and> Cflag t = CREAD U OR CLOCAL U OR rate OR flags \<and>
           Ispeed t = rate \<and> Ospeed t = rate \<and>
           Cc t ! VMIN U = 1 \<and> Cc t ! VTIME U = 4 \<and>
           (\<forall>r1 r2 errno w.
              os_Syscall os (SYS_IOCTL U) (Fd f) (TCSETS U) (Pointer t) (world m)
                = ((r1, r2, errno), w) \<longrightarrow>
              (errno \<noteq> 0 \<longrightarrow>
                 (SetBaud U os s baud cfg m =
                    Returns (Some (Errorf (''ioctl( '' @ quoted (Name s)
                                   @ '', TCSETS, &t ) error: '' @ decimal errno @ [CHR 0x0A])), s,
                      \<lparr>world = w,
                       trace = trace m @
                         [Syscall (SYS_IOCTL U) (Fd f) (TCSETS U) (Pointer t)
                            (r1, r2, errno)]\<rparr>))) \<and>
              (errno = 0 \<longrightarrow>
                 (\<forall>e w2.
                    os_SetNonblock os (int (Fd f)) False w = (e, w2) \<longrightarrow>
                    SetBaud U os s baud cfg m =
                      Returns (e, s,
                        \<lparr>world = w2,
                         trace = trace m @
                           [Syscall (SYS_IOCTL U) (Fd f) (TCSETS U) (Pointer t)
                              (r1, r2, errno),
                            SetNonblock (int (Fd f)) False e]\<rparr>))))"
proof -
  define t where "t = \<lparr>Iflag = IGNPAR U, Oflag = 0,
      Cflag = CREAD U OR CLOCAL U OR rate OR flags, Lflag = 0, Line = 0,
      Cc = ((replicate (NCCS U) 0)[VMIN U := 1])[VTIME U := 4],
      Ispeed = rate, Ospeed = rate\<rparr>"
  have run: "SetBaud U os s baud cfg m =
      (let (errno, m1) = ioctl U os s (TCSETS U) (Pointer t) m
       in if 0 \<noteq> errno
          then Returns (Some (Errorf (''ioctl( '' @ quoted (Name s) @ '', TCSETS, &t ) error: ''
                                       @ decimal errno @ [CHR 0x0A])), s, m1)
          else (let (e, m2) = call_SetNonblock os (int (Fd f)) False m1
                in Returns (e, s, m2)))"
    by (simp add: SetBaud_def assms(1,2) t_def)
  have fields: "Iflag t = IGNPAR U" "Cflag t = CREAD U OR CLOCAL U OR rate OR flags"
    "Ispeed t = rate" "Ospeed t = rate"
    by (simp_all add: t_def)
  have cc: "Cc t ! VMIN U = 1" "Cc t ! VTIME U = 4"
    using Cc_assembled [OF assms(3,4,5)] by (simp_all add: t_def)
  have calls: "\<forall>r1 r2 errno w.
      os_Syscall os (SYS_IOCTL U) (Fd f) (TCSETS U) (Pointer t) (world m)
        = ((r1, r2, errno), w) \<longrightarrow>
      (errno \<noteq> 0 \<longrightarrow>
         (SetBaud U os s baud cfg m =
            Returns (Some (Errorf (''ioctl( '' @ quoted (Name s)
                           @ '', TCSETS, &t ) error: '' @ decimal errno @ [CHR 0x0A])), s,
              \<lparr>world = w,
               trace = trace m @
                 [Syscall (SYS_IOCTL U) (Fd f) (TCSETS U) (Pointer t) (r1, r2, errno)]\<rparr>))) \<and>
      (errno = 0 \<longrightarrow>
         (\<forall>e w2.
            os_SetNonblock os (int (Fd f)) False w = (e, w2) \<longrightarrow>
            SetBaud U os s baud cfg m =
              Returns (e, s,
                \<lparr>world = w2,
                 trace = trace m @
                   [Syscall (SYS_IOCTL U) (Fd f) (TCSETS U) (Pointer t) (r1, r2, errno),
                    SetNonblock (int (Fd f)) False e]\<rparr>)))"
    by (simp add: run ioctl_open [OF assms(1)] call_SetNonblock_def)
  from fields cc calls show ?thesis
    by blast
qed

theorem SetBaud_open_witness:
  "file' open_port = Some (File 3) \<and>
   validateConfig linux_amd64 9600 ''8N1'' = Returns (0xd, 0x30, None) \<and>
   VMIN linux_amd64 < NCCS linux_amd64 \<and> VTIME linux_amd64 < NCCS linux_amd64 \<and>
   VMIN linux_amd64 \<noteq> VTIME linux_amd64 \<and>
   (\<exists>t. Iflag t = 0x4 \<and> Cflag t = 0x8BD \<and> Ispeed t = 0xd \<and> Ospeed t = 0xd \<and>
        Cc t ! 6 = 1 \<and> Cc t ! 5 = 4 \<and>
        SetBaud linux_amd64 demo_os open_port 9600 ''8N1'' boot =
          Returns (None, open_port,
            \<lparr>world = 0,
             trace = [Syscall 16 3 0x5402 (Pointer t) (0, 0, 0), SetNonblock 3 False None]\<rparr>))"
proof -
  have h1: "file' open_port = Some (File 3)"
    by (simp add: open_port_def)
  have h2: "validateConfig linux_amd64 9600 ''8N1'' = Returns (0xd, 0x30, None)"
    by (simp add: validateConfig_three linux_tables)
  have h3: "VMIN linux_amd64 < NCCS linux_amd64" "VTIME linux_amd64 < NCCS linux_amd64"
    "VMIN linux_amd64 \<noteq> VTIME linux_amd64"
    by (simp_all add: linux_consts)
  from SetBaud_open [OF h1 h2 h3, of demo_os boot]
  obtain t where T: "Iflag t = IGNPAR linux_amd64 \<and>
      Cflag t = CREAD linux_amd64 OR CLOCAL linux_amd64 OR 0xd OR 0x30 \<and>
      Ispeed t = 0xd \<and> Ospeed t = 0xd \<and>
      Cc t ! VMIN linux_amd64 = 1 \<and> Cc t ! VTIME linux_amd64 = 4 \<and>
      (\<forall>r1 r2 errno w.
         os_Syscall demo_os (SYS_IOCTL linux_amd64) (Fd (File 3)) (TCSETS linux_amd64)
           (Pointer t) (world boot) = ((r1, r2, errno), w) \<longrightarrow>
         (errno \<noteq> 0 \<longrightarrow>
            (SetBaud linux_amd64 demo_os open_port 9600 ''8N1'' boot =
               Returns (Some (Errorf (''ioctl( '' @ quoted (Name open_port)
                              @ '', TCSETS, &t ) error: '' @ decimal errno @ [CHR 0x0A])),
                 open_port,
                 \<lparr>world = w,
                  trace = trace boot @
                    [Syscall (SYS_IOCTL linux_amd64) (Fd (File 3)) (TCSETS linux_amd64)
                       (Pointer t) (r1, r2, errno)]\<rparr>))) \<and>
         (errno = 0 \<longrightarrow>
            (\<forall>e w2.
               os_SetNonblock demo_os (int (Fd (File 3))) False w = (e, w2) \<longrightarrow>
               SetBaud linux_amd64 demo_os open_port 9600 ''8N1'' boot =
                 Returns (e, open_port,
                   \<lparr>world = w2,
                    trace = trace boot @
                      [Syscall (SYS_IOCTL linux_amd64) (Fd (File 3)) (TCSETS linux_amd64)
                         (Pointer t) (r1, r2, errno),
                       SetNonblock (int (Fd (File 3))) False e]\<rparr>))))"
    by (erule exE)
  from T have t1: "Iflag t = IGNPAR linux_amd64" by (elim conjE)
  from T have t2: "Cflag t = CREAD linux_amd64 OR CLOCAL linux_amd64 OR 0xd OR 0x30"
    by (elim conjE)
  from T have t3: "Ispeed t = 0xd" by (elim conjE)
  from T have t4: "Ospeed t = 0xd" by (elim conjE)
  from T have t5: "Cc t ! VMIN linux_amd64 = 1" by (elim conjE)
  from T have t6: "Cc t ! VTIME linux_amd64 = 4" by (elim conjE)
  have sys: "os_Syscall demo_os (SYS_IOCTL linux_amd64) (Fd (File 3)) (TCSETS linux_amd64)
      (Pointer t) (world boot) = ((0, 0, 0), 0)"
    by (simp add: demo_os_simps linux_consts boot_def)
  have nb: "os_SetNonblock demo_os (int (Fd (File 3))) False 0 = (None, 0)"
    by (simp add: demo_os_simps)
  note calls = T [THEN conjunct2, THEN conjunct2, THEN conjunct2, THEN conjunct2,
      THEN conjunct2, THEN conjunct2, rule_format, OF sys]
  note succeeded = calls [THEN conjunct2, rule_format, OF refl nb]
  from succeeded have "SetBaud linux_amd64 demo_os open_port 9600 ''8N1'' boot =
      Returns (None, open_port,
        \<lparr>world = 0,
         trace = trace boot @
           [Syscall (SYS_IOCTL linux_amd64) (Fd (File 3)) (TCSETS linux_amd64) (Pointer t)
              (0, 0, 0),
            SetNonblock (int (Fd (File 3))) False None]\<rparr>)" .
  then have run: "SetBaud linux_amd64 demo_os open_port 9600 ''8N1'' boot =
      Returns (None, open_port,
        \<lparr>world = 0,
         trace = [Syscall 16 3 0x5402 (Pointer t) (0, 0, 0), SetNonblock 3 False None]\<rparr>)"
    by (simp add: linux_consts boot_def)
  from t1 t2 t3 t4 t5 t6 have fields: "Iflag t = 0x4" "Cflag t = 0x8BD" "Ispeed t = 0xd"
    "Ospeed t = 0xd" "Cc t ! 6 = 1" "Cc t ! 5 = 4"
    by (simp_all add: linux_consts)
  show ?thesis
    by (intro conjI exI [of _ t] h1 h2 h3 fields run)
qed

text \<open>
  Claim C8. \<open>Open\<close> on a port that is already open returns the error
  \<open>Serial port '<name>' already open.\<close> and changes neither the handle nor the machine.
  \<open>Close\<close> returns no error in every state and leaves the \<open>file\<close> field \<open>nil\<close>; on a
  closed port, so also when called a second time, it changes nothing.
\<close>

theorem Open_Close:
  "(file' s = Some f \<longrightarrow>
      Open U os s m =
        (Some (Errorf (''Serial port '' @ quoted (Name s) @ '' already open.'')), s, m)) \<and>
   (\<exists>s' m'. Close os s m = (None, s', m') \<and> file' s' = None \<and> Name s' = Name s \<and>
      Close os s' m' = (None, s', m')) \<and>
   (file' s = None \<longrightarrow> Close os s m = (None, s, m))"
  by (cases "file' s") (auto simp: Open_def Close_def split: prod.splits)

theorem Open_Close_witness:
  "file' open_port = Some (File 3) \<and>
   Open linux_amd64 demo_os open_port boot =
     (Some (Errorf ''Serial port '/dev/ttyS0' already open.''), open_port, boot) \<and>
   file' closed_port = None \<and>
   Close demo_os closed_port boot = (None, closed_port, boot)"
  using Open_Close [of open_port "File 3" linux_amd64 demo_os boot]
    Open_Close [of closed_port "File 3" linux_amd64 demo_os boot]
  by (simp add: open_port_def closed_port_def quoted_def)

subsection \<open>The handle invariant is kept\<close>

lemma Open_inv: "handle_inv s m \<Longrightarrow> Open U os s m = (e, s', m') \<Longrightarrow> handle_inv s' m'"
  by (auto simp: handle_inv_def Open_def call_OpenFile_def last_open_snoc opened_simps
      split: option.splits prod.splits sum.splits)

lemma Close_inv: "Close os s m = (e, s', m') \<Longrightarrow> handle_inv s' m'"
  by (auto simp: handle_inv_def Close_def split: option.splits prod.splits)

lemma ioctl_inv:
  "handle_inv s m \<Longrightarrow> ioctl U os s req arg m = (errno, m') \<Longrightarrow> handle_inv s m'"
  by (auto simp: handle_inv_def ioctl_def call_Syscall_def last_open_snoc opened_simps
      split: option.splits prod.splits)

lemma SetBaud_inv:
  assumes inv: "handle_inv s m"
    and run: "SetBaud U os s baud cfg m = Returns (e, s', m')"
  shows "handle_inv s' m'"
proof (cases "file' s")
  case None
  with run have "s' = s" "m' = m"
    by (simp_all add: SetBaud_def)
  with inv show ?thesis by simp
next
  case f: (Some f)
  show ?thesis
  proof (cases "validateConfig U baud cfg")
    case (Panics p)
    with run f show ?thesis by (simp add: SetBaud_def)
  next
    case (Returns v)
    then obtain rate flags err where v: "validateConfig U baud cfg = Returns (rate, flags, err)"
      by (cases v) auto
    show ?thesis
    proof (cases err)
      case (Some x)
      with run f v have "s' = s" "m' = m"
        by (simp_all add: SetBaud_def)
      with inv show ?thesis by simp
    next
      case None
      define t where "t = \<lparr>Iflag = IGNPAR U, Oflag = 0,
          Cflag = CREAD U OR CLOCAL U OR rate OR flags, Lflag = 0, Line = 0,
          Cc = ((replicate (NCCS U) 0)[VMIN U := 1])[VTIME U := 4],
          Ispeed = rate, Ospeed = rate\<rparr>"
      obtain errno m1 where io: "ioctl U os s (TCSETS U) (Pointer t) m = (errno, m1)"
        by (cases "ioctl U os s (TCSETS U) (Pointer t) m")
      from ioctl_inv [OF inv io] have inv1: "handle_inv s m1" .
      obtain e2 w2 where nb: "os_SetNonblock os (int (Fd f)) False (world m1) = (e2, w2)"
        by (cases "os_SetNonblock os (int (Fd f)) False (world m1)")
      from run f v None io nb
      have "s' = s \<and> (m' = m1 \<or>
          m' = \<lparr>world = w2, trace = trace m1 @ [SetNonblock (int (Fd f)) False e2]\<rparr>)"
        by (auto simp: SetBaud_def t_def [symmetric] call_SetNonblock_def split: if_splits)
      with inv1 handle_inv_snoc [OF inv1, of "SetNonblock (int (Fd f)) False e2" w2]
      show ?thesis
        by (auto simp: opened_simps)
    qed
  qed
qed

lemma Write_inv: "handle_inv s m \<Longrightarrow> Write os s b m = (r, s', m') \<Longrightarrow> handle_inv s' m'"
  by (auto simp: handle_inv_def Write_def call_Write_def last_open_snoc opened_simps
      split: option.splits prod.splits)

lemma Read_inv: "handle_inv s m \<Longrightarrow> Read os s b m = (r, b', s', m') \<Longrightarrow> handle_inv s' m'"
  by (auto simp: handle_inv_def Read_def call_Read_def last_open_snoc opened_simps
      split: option.splits prod.splits)

lemma Flush_inv: "handle_inv s m \<Longrightarrow> Flush U os s m = (e, s', m') \<Longrightarrow> handle_inv s' m'"
  by (auto simp: Flush_def dest: ioctl_inv split: option.splits prod.splits if_splits)

lemma SendBreak_inv:
  "handle_inv s m \<Longrightarrow> SendBreak U os s m = (e, s', m') \<Longrightarrow> handle_inv s' m'"
  by (auto simp: SendBreak_def dest: ioctl_inv split: option.splits prod.splits if_splits)

text \<open>
  Claim C10. When \<open>os.OpenFile\<close> fails, \<open>Open\<close> returns its error and leaves the port
  handle as it was, without a file, so that \<open>Open\<close> can be tried again; when it
  succeeds, the file it returned becomes the handle. Every operation keeps the
  invariant that the \<open>file\<close> field is \<open>nil\<close> or the file of the most recent successful
  \<open>Open\<close>.
\<close>

theorem handle_invariant:
  "(file' s = None \<and>
    os_OpenFile os (Name s) (O_RDWR U OR O_NOCTTY U OR O_NONBLOCK U) 0x1B6 (world m)
      = (Inl err, w) \<longrightarrow>
      (\<exists>m'. Open U os s m = (Some err, s, m'))) \<and>
   (file' s = None \<and>
    os_OpenFile os (Name s) (O_RDWR U OR O_NOCTTY U OR O_NONBLOCK U) 0x1B6 (world m)
      = (Inr f, w) \<longrightarrow>
      (\<exists>m'. Open U os s m = (None, s\<lparr>file' := Some f\<rparr>, m'))) \<and>
   (handle_inv s m \<longrightarrow>
      (\<forall>e s' m'. Open U os s m = (e, s', m') \<longrightarrow> handle_inv s' m') \<and>
      (\<forall>e s' m'. Close os s m = (e, s', m') \<longrightarrow> handle_inv s' m') \<and>
      (\<forall>e s' m'. SetBaud U os s baud cfg m = Returns (e, s', m') \<longrightarrow> handle_inv s' m') \<and>
      (\<forall>r s' m'. Write os s b m = (r, s', m') \<longrightarrow> handle_inv s' m') \<and>
      (\<forall>r b' s' m'. Read os s b m = (r, b', s', m') \<longrightarrow> handle_inv s' m') \<and>
      (\<forall>e s' m'. Flush U os s m = (e, s', m') \<longrightarrow> handle_inv s' m') \<and>
      (\<forall>e s' m'. SendBreak U os s m = (e, s', m') \<longrightarrow> handle_inv s' m'))"
proof (intro conjI impI allI)
  assume "file' s = None \<and>
    os_OpenFile os (Name s) (O_RDWR U OR O_NOCTTY U OR O_NONBLOCK U) 0x1B6 (world m)
      = (Inl err, w)"
  then show "\<exists>m'. Open U os s m = (Some err, s, m')"
    by (simp add: Open_def call_OpenFile_def)
next
  assume "file' s = None \<and>
    os_OpenFile os (Name s) (O_RDWR U OR O_NOCTTY U OR O_NONBLOCK U) 0x1B6 (world m)
      = (Inr f, w)"
  then show "\<exists>m'. Open U os s m = (None, s\<lparr>file' := Some f\<rparr>, m')"
    by (simp add: Open_def call_OpenFile_def)
next
  fix e s' m'
  assume "handle_inv s m" "Open U os s m = (e, s', m')"
  then show "handle_inv s' m'" by (rule Open_inv)
next
  fix e s' m'
  assume "Close os s m = (e, s', m')"
  then show "handle_inv s' m'" by (rule Close_inv)
next
  fix e s' m'
  assume "handle_inv s m" "SetBaud U os s baud cfg m = Returns (e, s', m')"
  then show "handle_inv s' m'" by (rule SetBaud_inv)
next
  fix r s' m'
  assume "handle_inv s m" "Write os s b m = (r, s', m')"
  then show "handle_inv s' m'" by (rule Write_inv)
next
  fix r b' s' m'
  assume "handle_inv s m" "Read os s b m = (r, b', s', m')"
  then show "handle_inv s' m'" by (rule Read_inv)
next
  fix e s' m'
  assume "handle_inv s m" "Flush U os s m = (e, s', m')"
  then show "handle_inv s' m'" by (rule Flush_inv)
next
  fix e s' m'
  assume "handle_inv s m" "SendBreak U os s m = (e, s', m')"
  then show "handle_inv s' m'" by (rule SendBreak_inv)
qed

theorem handle_invariant_witness:
  "file' no_such_port = None \<and>
   os_OpenFile demo_os (Name no_such_port) 0x902 0x1B6 (world boot)
     = (Inl (PathError ''open'' ''/dev/ttyS9'' 2), 0) \<and>
   (\<exists>m'. Open linux_amd64 demo_os no_such_port boot =
      (Some (PathError ''open'' ''/dev/ttyS9'' 2), no_such_port, m')) \<and>
   file' closed_port = None \<and>
   os_OpenFile demo_os (Name closed_port) 0x902 0x1B6 (world boot) = (Inr (File 3), 1) \<and>
   (\<exists>m'. Open linux_amd64 demo_os closed_port boot = (None, open_port, m')) \<and>
   handle_inv open_port after_open \<and>
   handle_inv closed_port
     \<lparr>world = 1 :: nat, trace = trace after_open @ [FileClose (File 3) None]\<rparr> \<and>
   handle_inv open_port
     \<lparr>world = 1 :: nat, trace = trace after_open @ [Syscall 16 3 0x540b (Value 2) (0, 0, 0)]\<rparr>"
proof -
  have f: "file' no_such_port = None" "file' closed_port = None"
    by (simp_all add: no_such_port_def closed_port_def)
  have o1: "os_OpenFile demo_os (Name no_such_port)
      (O_RDWR linux_amd64 OR O_NOCTTY linux_amd64 OR O_NONBLOCK linux_amd64) 0x1B6 (world boot)
      = (Inl (PathError ''open'' ''/dev/ttyS9'' 2), 0)"
    by (simp add: demo_os_simps no_such_port_def boot_def)
  have o2: "os_OpenFile demo_os (Name closed_port)
      (O_RDWR linux_amd64 OR O_NOCTTY linux_amd64 OR O_NONBLOCK linux_amd64) 0x1B6 (world boot)
      = (Inr (File 3), 1)"
    by (simp add: demo_os_simps closed_port_def boot_def)
  have inv: "handle_inv open_port after_open"
    by (simp add: handle_inv_def open_port_def after_open_def opened_simps)
  have c: "Close demo_os open_port after_open =
      (None, closed_port, \<lparr>world = 1 :: nat, trace = trace after_open @ [FileClose (File 3) None]\<rparr>)"
    by (simp add: Close_def call_Close_def demo_os_simps open_port_def closed_port_def
        after_open_def)
  have fl: "Flush linux_amd64 demo_os open_port after_open =
      (None, open_port,
       \<lparr>world = 1 :: nat, trace = trace after_open @ [Syscall 16 3 0x540b (Value 2) (0, 0, 0)]\<rparr>)"
    by (simp add: Flush_def ioctl_def call_Syscall_def demo_os_simps open_port_def
        after_open_def linux_consts)
  have op: "closed_port\<lparr>file' := Some (File 3)\<rparr> = open_port"
    by (simp add: closed_port_def open_port_def)
  note failed = handle_invariant [where s = no_such_port and os = demo_os
      and U = linux_amd64 and m = boot, THEN conjunct1, rule_format, OF conjI, OF f(1) o1]
  note opened = handle_invariant [where s = closed_port and os = demo_os
      and U = linux_amd64 and m = boot, THEN conjunct2, THEN conjunct1, rule_format,
      OF conjI, OF f(2) o2]
  note kept = handle_invariant [where s = open_port and os = demo_os
      and U = linux_amd64 and m = after_open and baud = 9600 and cfg = "''8N1''" and b = "[]",
      THEN conjunct2, THEN conjunct2, rule_format, OF inv]
  from failed have r1: "\<exists>m'. Open linux_amd64 demo_os no_such_port boot =
      (Some (PathError ''open'' ''/dev/ttyS9'' 2), no_such_port, m')" .
  from opened have r2: "\<exists>m'. Open linux_amd64 demo_os closed_port boot = (None, open_port, m')"
    by (simp only: op)
  from kept [THEN conjunct2, THEN conjunct1, rule_format, OF c]
  have r3: "handle_inv closed_port
     \<lparr>world = 1 :: nat, trace = trace after_open @ [FileClose (File 3) None]\<rparr>" .
  from kept [THEN conjunct2, THEN conjunct2, THEN conjunct2, THEN conjunct2, THEN conjunct2,
      THEN conjunct1, rule_format, OF fl]
  have r4: "handle_inv open_port
     \<lparr>world = 1 :: nat, trace = trace after_open @ [Syscall 16 3 0x540b (Value 2) (0, 0, 0)]\<rparr>" .
  from f o1 o2 inv r1 r2 r3 r4 show ?thesis
    by (simp add: linux_consts)
qed

end
